theory Spec2Isabelle
  imports Main
begin

section \<open>Data model (package models)\<close>

text \<open>
  Go's \<open>int\<close> and \<open>int64\<close> are modelled as \<open>int\<close>: the code compares and stores
  these numbers but never does arithmetic on them, so no operation can wrap around.
  The only place where the 64-bit range is visible is \<open>strconv.Atoi\<close>, which rejects
  numerals outside it.
\<close>

record Question =
  Number :: int
  Question :: string
  Answers :: "string list"
  RightAnswer :: int
  Category :: string
  Image :: string

record UserActivity =
  UserID :: int
  QuestionNumber :: int
  AnswerNumber :: int
  Correct :: bool
  Timestamp :: int

text \<open>
  Every \<open>error\<close> value the modelled functions can return. \<open>ErrNoRows\<close> is
  \<open>sql.ErrNoRows\<close>; \<open>StorageFailure\<close> stands for any other error of the SQLite driver.
\<close>

datatype error =
    ErrNoRows
  | StorageFailure
  | ReadFileError
  | UnmarshalError
  | AdapterTransport
  | AdapterTimeout
  | AdapterBadResponse

section \<open>Persistence (package database)\<close>

text \<open>
  The two tables of \<open>createTables\<close>. \<open>user_activity\<close> is the list of its rows in
  insertion (row id) order; a row has the columns of \<open>UserActivity\<close>.
  \<open>deepseek_cache\<close> has \<open>question_number\<close> as primary key, so it is a map from the
  key to the pair \<open>(response, right_answer)\<close>.
\<close>

record DB =
  user_activity :: "UserActivity list"
  deepseek_cache :: "int \<rightharpoonup> string \<times> int"

text \<open>
  Whether a call into the SQL driver works is decided outside the program; each database
  function takes that outcome as its first argument.
\<close>

datatype driver = Succeeds | Fails

text \<open>\<open>SaveUserActivity\<close>: one \<open>INSERT\<close>; \<open>now\<close> is \<open>time.Now().Unix()\<close>.\<close>

definition SaveUserActivity ::
  "driver \<Rightarrow> int \<Rightarrow> DB \<Rightarrow> int \<Rightarrow> int \<Rightarrow> int \<Rightarrow> bool \<Rightarrow> DB \<times> error option" where
  "SaveUserActivity io now db userID questionNumber answerNumber correct =
     (case io of
        Fails \<Rightarrow> (db, Some StorageFailure)
      | Succeeds \<Rightarrow>
          (db\<lparr>user_activity := user_activity db @
                [\<lparr>UserID = userID, QuestionNumber = questionNumber,
                  AnswerNumber = answerNumber, Correct = correct, Timestamp = now\<rparr>]\<rparr>,
           None))"

text \<open>
  \<open>GetUserStats\<close>: two \<open>SELECT COUNT(*)\<close> queries, each of which may fail. When the second
  one fails, \<open>incorrect\<close> keeps its zero value and the first count is still returned.
\<close>

definition GetUserStats :: "driver \<Rightarrow> driver \<Rightarrow> DB \<Rightarrow> int \<Rightarrow> int \<times> int \<times> error option" where
  "GetUserStats io1 io2 db userID =
     (case io1 of
        Fails \<Rightarrow> (0, 0, Some StorageFailure)
      | Succeeds \<Rightarrow>
          (let correct = int (length (filter (\<lambda>a. UserID a = userID \<and> Correct a)
                                        (user_activity db)))
           in case io2 of
                Fails \<Rightarrow> (correct, 0, Some StorageFailure)
              | Succeeds \<Rightarrow>
                  (correct,
                   int (length (filter (\<lambda>a. UserID a = userID \<and> \<not> Correct a)
                                  (user_activity db))),
                   None)))"

text \<open>\<open>CacheDeepseekResponse\<close>: \<open>INSERT OR REPLACE\<close> on the primary key.\<close>

definition CacheDeepseekResponse ::
  "driver \<Rightarrow> DB \<Rightarrow> int \<Rightarrow> string \<Rightarrow> int \<Rightarrow> DB \<times> error option" where
  "CacheDeepseekResponse io db questionNumber response rightAnswer =
     (case io of
        Fails \<Rightarrow> (db, Some StorageFailure)
      | Succeeds \<Rightarrow>
          (db\<lparr>deepseek_cache := (deepseek_cache db)(questionNumber \<mapsto> (response, rightAnswer))\<rparr>,
           None))"

text \<open>
  \<open>QueryRow(...).Scan(&response, &rightAnswer)\<close> of \<open>GetCachedDeepseekResponse\<close>: the
  values left in the two variables and the error. On an error the variables keep their
  zero values.
\<close>

definition scanCacheRow :: "driver \<Rightarrow> DB \<Rightarrow> int \<Rightarrow> (string \<times> int) \<times> error option" where
  "scanCacheRow io db questionNumber =
     (case io of
        Fails \<Rightarrow> (([], 0), Some StorageFailure)
      | Succeeds \<Rightarrow>
          (case deepseek_cache db questionNumber of
             None \<Rightarrow> (([], 0), Some ErrNoRows)
           | Some row \<Rightarrow> (row, None)))"

definition GetCachedDeepseekResponse :: "driver \<Rightarrow> DB \<Rightarrow> int \<Rightarrow> string \<times> int \<times> error option" where
  "GetCachedDeepseekResponse io db questionNumber =
     (case scanCacheRow io db questionNumber of
        ((response, rightAnswer), err) \<Rightarrow>
          if err = Some ErrNoRows then ([], -1, None)
          else (response, rightAnswer, err))"

text \<open>
  \<open>GetMostFrequentIncorrectQuestions\<close> runs one query:
  \<^verbatim>\<open>SELECT question_number, COUNT(*) as count FROM user_activity
  WHERE user_id = ? AND correct = 0 GROUP BY question_number ORDER BY count DESC LIMIT ?\<close>

  \<open>incorrectCounts\<close> is its \<open>WHERE\<close> and \<open>GROUP BY\<close> part: one pair of question number
  and count for each question the user has missed.
\<close>

definition incorrectCounts :: "UserActivity list \<Rightarrow> int \<Rightarrow> (int \<times> nat) list" where
  "incorrectCounts rows userID =
     (let missed = filter (\<lambda>a. UserID a = userID \<and> \<not> Correct a) rows
      in map (\<lambda>q. (q, length (filter (\<lambda>a. QuestionNumber a = q) missed)))
             (remdups (map QuestionNumber missed)))"

text \<open>
  \<open>ORDER BY count DESC\<close>. SQL leaves the order of rows with equal counts to the storage
  engine. The model takes that choice as the argument \<open>rank\<close>: groups are first put
  in the order of their rank, then sorted by descending count with a stable sort, so
  that among equal counts the rank decides. Every order the engine may pick is the
  order of some \<open>rank\<close>.
\<close>

definition orderByCountDesc :: "(int \<Rightarrow> int) \<Rightarrow> (int \<times> nat) list \<Rightarrow> (int \<times> nat) list" where
  "orderByCountDesc rank groups =
     sort_key (\<lambda>(q, c). - int c) (sort_key (\<lambda>(q, c). rank q) groups)"

text \<open>\<open>LIMIT ?\<close>: SQLite puts no bound on the number of rows when the limit is negative.\<close>

definition sqlLimit :: "int \<Rightarrow> 'a list \<Rightarrow> 'a list" where
  "sqlLimit limit rows = (if limit < 0 then rows else take (nat limit) rows)"

text \<open>
  The loop over \<open>rows\<close> keeps the question number of each row and drops the count; the
  other fields of the \<open>UserActivity\<close> values it builds keep their zero values.
\<close>

definition GetMostFrequentIncorrectQuestions ::
  "driver \<Rightarrow> (int \<Rightarrow> int) \<Rightarrow> DB \<Rightarrow> int \<Rightarrow> int \<Rightarrow> UserActivity list \<times> error option" where
  "GetMostFrequentIncorrectQuestions io rank db userID limit =
     (case io of
        Fails \<Rightarrow> ([], Some StorageFailure)
      | Succeeds \<Rightarrow>
          (map (\<lambda>(questionNumber, count).
                  \<lparr>UserID = userID, QuestionNumber = questionNumber, AnswerNumber = 0,
                   Correct = False, Timestamp = 0\<rparr>)
               (sqlLimit limit
                  (orderByCountDesc rank (incorrectCounts (user_activity db) userID))),
           None))"

section \<open>Question loading (bot.loadQuestions)\<close>

text \<open>
  \<open>os.ReadFile\<close> and \<open>json.Unmarshal\<close> are outside the program: their joint outcome is the
  argument, either the error that makes \<open>loadQuestions\<close> return early or the decoded
  slice. The filtering loop appends to \<open>validQuestions\<close> one question at a time.
\<close>

fun validQuestions :: "Question list \<Rightarrow> Question list \<Rightarrow> Question list" where
  "validQuestions acc [] = acc"
| "validQuestions acc (q # questions) =
     (if Number q \<noteq> -1 then validQuestions (acc @ [q]) questions
      else validQuestions acc questions)"

definition loadQuestions :: "error + Question list \<Rightarrow> error + Question list" where
  "loadQuestions decoded =
     (case decoded of
        Inl err \<Rightarrow> Inl err
      | Inr questions \<Rightarrow> Inr (validQuestions [] questions))"

section \<open>AI adapter (package ai)\<close>

text \<open>
  What the HTTP exchange with the Deepseek API came to. \<open>AnalyzeQuestion\<close> has one
  return statement for each of these; all the failing ones except the timeout return
  the empty text.
\<close>

datatype exchange =
    RequestFailed
  | TimedOut
  | BadStatus
  | BadBody
  | NoChoices
  | Content string

definition extractRightAnswerFromContent :: "string \<Rightarrow> Question \<Rightarrow> int" where
  "extractRightAnswerFromContent content question =
     (if RightAnswer question \<ge> 0 \<and> RightAnswer question < int (length (Answers question))
      then RightAnswer question
      else -1)"

definition AnalyzeQuestion :: "exchange \<Rightarrow> Question \<Rightarrow> string \<times> int \<times> error option" where
  "AnalyzeQuestion reply question =
     (case reply of
        RequestFailed \<Rightarrow> ([], -1, Some AdapterTransport)
      | TimedOut \<Rightarrow>
          (''Sorry, the AI analysis timed out. Please try again later.'', -1,
           Some AdapterTimeout)
      | BadStatus \<Rightarrow> ([], -1, Some AdapterBadResponse)
      | BadBody \<Rightarrow> ([], -1, Some AdapterBadResponse)
      | NoChoices \<Rightarrow> ([], -1, Some AdapterBadResponse)
      | Content content \<Rightarrow> (content, extractRightAnswerFromContent content question, None))"

section \<open>The functions of strings and strconv that handleCallback uses\<close>

definition HasPrefix :: "string \<Rightarrow> string \<Rightarrow> bool" where
  "HasPrefix s prefix = (take (length prefix) s = prefix)"

definition TrimPrefix :: "string \<Rightarrow> string \<Rightarrow> string" where
  "TrimPrefix s prefix = (if HasPrefix s prefix then drop (length prefix) s else s)"

text \<open>\<open>strings.Split\<close> with a separator of one byte: the pieces between the separators.\<close>

fun Split :: "string \<Rightarrow> char \<Rightarrow> string list" where
  "Split [] sep = [[]]"
| "Split (c # s) sep =
     (if c = sep then [] # Split s sep
      else (case Split s sep of
              [] \<Rightarrow> [[c]]
            | part # parts \<Rightarrow> (c # part) # parts))"

text \<open>
  \<open>strconv.Atoi\<close>: an optional sign, then at least one decimal digit and nothing else;
  a value outside the range of the 64-bit \<open>int\<close> is an error. \<open>None\<close> is the
  \<open>*NumError\<close>.
\<close>

definition isDigit :: "char \<Rightarrow> bool" where
  "isDigit c = (c \<in> set ''0123456789'')"

definition digitsValue :: "string \<Rightarrow> int" where
  "digitsValue ds = foldl (\<lambda>n c. n * 10 + (int (of_char c) - 48)) 0 ds"

definition Atoi :: "string \<Rightarrow> int option" where
  "Atoi s =
     (let (negative, ds) =
            (case s of
               [] \<Rightarrow> (False, [])
             | c # rest \<Rightarrow>
                 if c = CHR ''-'' then (True, rest)
                 else if c = CHR ''+'' then (False, rest)
                 else (False, s));
          v = (if negative then - digitsValue ds else digitsValue ds)
      in if ds = [] \<or> \<not> list_all isDigit ds then None
         else if v < - (2 ^ 63) \<or> 2 ^ 63 \<le> v then None
         else Some v)"

section \<open>The bot (package bot)\<close>

text \<open>
  What the bot says. The fixed wording of each \<open>fmt.Sprintf\<close> template is left out,
  its arguments are kept: \<open>NotCorrect t\<close> is the message
  "Sorry, that's not correct. The right answer is: t ...", \<open>Analyzing a\<close> is
  "Your answer: a / Analyzing...", \<open>CouldNotDetermine a\<close> the message of the failed
  analysis, \<open>Analysis a r\<close> the answer followed by the Deepseek response, and
  \<open>AnalysisWithVerdict a v r\<close> the answer, the verdict \<open>correctnessText\<close> and the
  response.
\<close>

datatype correctness = AnalysedCorrect | AnalysedIncorrect string

datatype message =
    NoLongerAvailable
  | CorrectWellDone
  | NotCorrect string
  | Analyzing string
  | CouldNotDetermine string
  | Analysis string string
  | AnalysisWithVerdict string correctness string

text \<open>
  The requests made to the Telegram API: the acknowledgement of a callback, a new
  message to a chat, an edit of the message with a given id in a chat. The parse mode
  that \<open>sendMessage\<close> and \<open>editMessage\<close> choose, and their second attempt as plain text
  when Telegram rejects the first, are left out: a request stands for the message
  whatever its formatting, and its failure is only logged.
\<close>

datatype request =
    CallbackResponse string
  | SendMessage int message
  | EditMessage int int message

text \<open>
  The \<open>Bot\<close> struct. \<open>api\<close> is the list of requests made so far, \<open>deepseek\<close> the list
  of calls of \<open>AnalyzeQuestion\<close> made so far, each by the number of its question.
  \<open>panicked\<close> records a run-time panic of an out-of-range index expression.
\<close>

record Bot =
  api :: "request list"
  db :: DB
  deepseek :: "int list"
  questions :: "Question list"
  userQuestions :: "int \<rightharpoonup> int"
  panicked :: bool

record CallbackQuery =
  ID :: string
  From_ID :: int
  Message_Chat_ID :: int
  Data :: string

text \<open>
  What the world outside the program does during one callback: the clock, the outcome of
  each call into the database in the order of the calls, the id Telegram gives to the
  initial message (\<open>None\<close> when sending it fails) and the HTTP exchange with Deepseek.
\<close>

record world =
  clock :: int
  cacheLookup :: driver
  activityInsert :: driver
  initialSend :: "int option"
  cacheRecheck :: driver
  analysis :: exchange
  cacheInsert :: driver

definition callbackPrefix :: string where
  "callbackPrefix = ''answer:''"

definition sendMessage :: "int \<Rightarrow> message \<Rightarrow> Bot \<Rightarrow> Bot" where
  "sendMessage chatID text b = b\<lparr>api := api b @ [SendMessage chatID text]\<rparr>"

definition editMessage :: "int \<Rightarrow> int \<Rightarrow> message \<Rightarrow> Bot \<Rightarrow> Bot" where
  "editMessage chatID messageID newText b =
     b\<lparr>api := api b @ [EditMessage chatID messageID newText]\<rparr>"

definition sendCallbackResponse :: "string \<Rightarrow> Bot \<Rightarrow> Bot" where
  "sendCallbackResponse callbackID b = b\<lparr>api := api b @ [CallbackResponse callbackID]\<rparr>"

text \<open>Go's index expression \<open>xs[i]\<close>: \<open>None\<close> is the panic of an index out of range.\<close>

definition index :: "'a list \<Rightarrow> int \<Rightarrow> 'a option" where
  "index xs i = (if 0 \<le> i \<and> i < int (length xs) then Some (xs ! nat i) else None)"

text \<open>
  The text shown for an answer index, written three times in \<open>handleCallback\<close>
  (for \<open>correctAnswerText\<close> twice and for \<open>userAnswer\<close>): "Unknown" unless the index
  passes the range test, and then the index expression.
\<close>

definition answerText :: "Question \<Rightarrow> int \<Rightarrow> string option" where
  "answerText question i =
     (if i \<ge> 0 \<and> i < int (length (Answers question)) then index (Answers question) i
      else Some ''Unknown'')"

text \<open>The loop that looks for the question: the first one with the number asked for.\<close>

definition findQuestion :: "Question list \<Rightarrow> int \<Rightarrow> Question option" where
  "findQuestion qs questionNum = List.find (\<lambda>q. Number q = questionNum) qs"

text \<open>The first part of \<open>handleCallback\<close>: question number and answer number.\<close>

definition parseCallbackData :: "string \<Rightarrow> (int \<times> int) option" where
  "parseCallbackData data =
     (if \<not> HasPrefix data callbackPrefix then None
      else (case Split (TrimPrefix data callbackPrefix) CHR '':'' of
              [part0, part1] \<Rightarrow>
                (case Atoi part0 of
                   None \<Rightarrow> None
                 | Some questionNum \<Rightarrow>
                     (case Atoi part1 of
                        None \<Rightarrow> None
                      | Some answerNum \<Rightarrow> Some (questionNum, answerNum)))
            | _ \<Rightarrow> None))"

text \<open>
  The right answer \<open>handleCallback\<close> goes by, with the cached response: the index of the
  dataset, replaced by the index of the cache when the cache has one other than -1.
\<close>

definition knownRightAnswer :: "driver \<Rightarrow> DB \<Rightarrow> Question \<Rightarrow> int \<Rightarrow> int \<times> string" where
  "knownRightAnswer io d question questionNum =
     (case GetCachedDeepseekResponse io d questionNum of
        (cachedResp, cachedRightAnswer, err) \<Rightarrow>
          if err = None \<and> cachedRightAnswer \<noteq> -1 then (cachedRightAnswer, cachedResp)
          else (RightAnswer question, []))"

text \<open>
  The variables the goroutine of \<open>handleCallback\<close> captures, with the values they have
  when it is started. \<open>isCorrect\<close> is left out: the goroutine assigns it before it
  reads it.
\<close>

record closure =
  c_chatID :: int
  c_initialMessageID :: int
  c_question :: Question
  c_questionNum :: int
  c_answerNum :: int
  c_userAnswer :: string
  c_rightAnswer :: int
  c_cachedResponse :: string

text \<open>
  \<open>handleCallback\<close> from the point where the question has been found to its return:
  the verdict, the activity record, the immediate reply or the placeholder. The result
  is the bot and the goroutine started, if one is.
\<close>

definition answerQuestion ::
  "world \<Rightarrow> CallbackQuery \<Rightarrow> Question \<Rightarrow> int \<Rightarrow> int \<Rightarrow> Bot \<Rightarrow> Bot \<times> closure option" where
  "answerQuestion w callback question questionNum answerNum b =
     (case knownRightAnswer (cacheLookup w) (db b) question questionNum of
        (rightAnswer, cachedResponse) \<Rightarrow>
          let isCorrect = (if rightAnswer \<noteq> -1 then answerNum = rightAnswer else False);
              b1 = b\<lparr>db := fst (SaveUserActivity (activityInsert w) (clock w) (db b)
                                  (From_ID callback) questionNum answerNum isCorrect)\<rparr>
          in if rightAnswer \<noteq> -1 then
               (if isCorrect
                then (sendMessage (Message_Chat_ID callback) CorrectWellDone b1, None)
                else (case answerText question rightAnswer of
                        None \<Rightarrow> (b1\<lparr>panicked := True\<rparr>, None)
                      | Some correctAnswerText \<Rightarrow>
                          (sendMessage (Message_Chat_ID callback)
                             (NotCorrect correctAnswerText) b1, None)))
             else (case answerText question answerNum of
                     None \<Rightarrow> (b1\<lparr>panicked := True\<rparr>, None)
                   | Some userAnswer \<Rightarrow>
                       (case initialSend w of
                          None \<Rightarrow> (b1, None)
                        | Some initialMessageID \<Rightarrow>
                            (sendMessage (Message_Chat_ID callback) (Analyzing userAnswer) b1,
                             Some \<lparr>c_chatID = Message_Chat_ID callback,
                                   c_initialMessageID = initialMessageID,
                                   c_question = question,
                                   c_questionNum = questionNum,
                                   c_answerNum = answerNum,
                                   c_userAnswer = userAnswer,
                                   c_rightAnswer = rightAnswer,
                                   c_cachedResponse = cachedResponse\<rparr>))))"

definition handleCallback :: "world \<Rightarrow> CallbackQuery \<Rightarrow> Bot \<Rightarrow> Bot \<times> closure option" where
  "handleCallback w callback b =
     (case parseCallbackData (Data callback) of
        None \<Rightarrow> (b, None)
      | Some (questionNum, answerNum) \<Rightarrow>
          (let b1 = sendCallbackResponse (ID callback) b
           in case findQuestion (questions b1) questionNum of
                None \<Rightarrow> (sendMessage (Message_Chat_ID callback) NoLongerAvailable b1, None)
              | Some question \<Rightarrow> answerQuestion w callback question questionNum answerNum b1))"

text \<open>
  The end of the goroutine: once \<open>rightAnswer\<close> and \<open>cachedResponse\<close> have their final
  values, the verdict and the last edit of the message.
\<close>

definition tellVerdict :: "closure \<Rightarrow> int \<Rightarrow> string \<Rightarrow> Bot \<Rightarrow> Bot" where
  "tellVerdict c rightAnswer cachedResponse b =
     (if rightAnswer \<noteq> -1 then
        (let isCorrect = (c_answerNum c = rightAnswer)
         in case (if isCorrect then Some AnalysedCorrect
                  else map_option AnalysedIncorrect (answerText (c_question c) rightAnswer)) of
              None \<Rightarrow> b\<lparr>panicked := True\<rparr>
            | Some correctnessText \<Rightarrow>
                if cachedResponse \<noteq> [] then
                  editMessage (c_chatID c) (c_initialMessageID c)
                    (AnalysisWithVerdict (c_userAnswer c) correctnessText cachedResponse) b
                else b)
      else b)"

text \<open>
  The goroutine. It runs on the bot as it is when the goroutine gets to run, which may
  be later than the return of \<open>handleCallback\<close>.
\<close>

definition analysisGoroutine :: "world \<Rightarrow> closure \<Rightarrow> Bot \<Rightarrow> Bot" where
  "analysisGoroutine w c b =
     (case GetCachedDeepseekResponse (cacheRecheck w) (db b) (c_questionNum c) of
        (cachedResp, cachedRightAnswer, err) \<Rightarrow>
          if err = None \<and> cachedRightAnswer \<noteq> -1 \<and> cachedResp \<noteq> [] then
            tellVerdict c cachedRightAnswer cachedResp b
          else if c_cachedResponse c = [] then
            (let b1 = b\<lparr>deepseek := deepseek b @ [Number (c_question c)]\<rparr>
             in case AnalyzeQuestion (analysis w) (c_question c) of
                  (resp, rightAns, err) \<Rightarrow>
                    if err \<noteq> None then
                      editMessage (c_chatID c) (c_initialMessageID c)
                        (CouldNotDetermine (c_userAnswer c)) b1
                    else
                      (let b2 = editMessage (c_chatID c) (c_initialMessageID c)
                                  (Analysis (c_userAnswer c) resp) b1;
                           b3 = b2\<lparr>db := fst (CacheDeepseekResponse (cacheInsert w) (db b2)
                                               (c_questionNum c) resp rightAns)\<rparr>
                       in tellVerdict c rightAns resp b3))
          else tellVerdict c (c_rightAnswer c) (c_cachedResponse c) b)"

text \<open>One submission from the callback to the end of its goroutine, with nothing in between.\<close>

definition submission :: "world \<Rightarrow> CallbackQuery \<Rightarrow> Bot \<Rightarrow> Bot" where
  "submission w callback b =
     (case handleCallback w callback b of
        (b', None) \<Rightarrow> b'
      | (b', Some c) \<Rightarrow> analysisGoroutine w c b')"

section \<open>Replaying calls, and the scenarios used below\<close>

text \<open>
  A sequence of calls of \<open>SaveUserActivity\<close>, each with the outcome of its \<open>INSERT\<close>, the
  clock and its four arguments.
\<close>

fun recordAll :: "(driver \<times> int \<times> int \<times> int \<times> int \<times> bool) list \<Rightarrow> DB \<Rightarrow> DB" where
  "recordAll [] d = d"
| "recordAll ((io, now, userID, questionNumber, answerNumber, correct) # calls) d =
     recordAll calls (fst (SaveUserActivity io now d userID questionNumber answerNumber correct))"

text \<open>
  Four questions: one whose right answer the dataset knows, one whose right answer it
  does not know (question 5 with the choices A, B, C), one without answers whose
  \<open>Right answer\<close> field has the zero value, and one with the number -1.
\<close>

definition knownQuestion :: Question where
  "knownQuestion = \<lparr>Number = 3, Question = ''Which one?'', Answers = [''A'', ''B'', ''C''],
     RightAnswer = 1, Category = ''general'', Image = []\<rparr>"

definition unknownQuestion :: Question where
  "unknownQuestion = \<lparr>Number = 5, Question = ''Which one?'', Answers = [''A'', ''B'', ''C''],
     RightAnswer = -1, Category = ''general'', Image = []\<rparr>"

definition emptyQuestion :: Question where
  "emptyQuestion = \<lparr>Number = 7, Question = ''Which one?'', Answers = [],
     RightAnswer = 0, Category = ''general'', Image = []\<rparr>"

definition brokenQuestion :: Question where
  "brokenQuestion = \<lparr>Number = -1, Question = [], Answers = [],
     RightAnswer = 0, Category = [], Image = []\<rparr>"

text \<open>
  Three databases: an empty one, one whose cache has a resolved entry for question 5,
  and one whose cache has for question 3 an index other than the one of the dataset.
\<close>

definition emptyDB :: DB where
  "emptyDB = \<lparr>user_activity = [], deepseek_cache = Map.empty\<rparr>"

definition resolvedDB :: DB where
  "resolvedDB = \<lparr>user_activity = [], deepseek_cache = [5 \<mapsto> (''B is right'', 1)]\<rparr>"

definition staleDB :: DB where
  "staleDB = \<lparr>user_activity = [], deepseek_cache = [3 \<mapsto> (''C is right'', 2)]\<rparr>"

definition botWith :: "DB \<Rightarrow> Bot" where
  "botWith d = \<lparr>api = [], db = d, deepseek = [],
     questions = [knownQuestion, unknownQuestion, emptyQuestion],
     userQuestions = Map.empty, panicked = False\<rparr>"

text \<open>
  A world in which every call works and Deepseek answers, and one in which the call to
  Deepseek times out.
\<close>

definition calmWorld :: world where
  "calmWorld = \<lparr>clock = 100, cacheLookup = Succeeds, activityInsert = Succeeds,
     initialSend = Some 9, cacheRecheck = Succeeds, analysis = Content ''B is right'',
     cacheInsert = Succeeds\<rparr>"

definition timeoutWorld :: world where
  "timeoutWorld = \<lparr>clock = 100, cacheLookup = Succeeds, activityInsert = Succeeds,
     initialSend = Some 9, cacheRecheck = Succeeds, analysis = TimedOut,
     cacheInsert = Succeeds\<rparr>"

text \<open>User 42 presses the button that carries the given callback data.\<close>

definition press :: "string \<Rightarrow> CallbackQuery" where
  "press d = \<lparr>ID = ''callback'', From_ID = 42, Message_Chat_ID = 42, Data = d\<rparr>"

text \<open>
  The number of rows of \<open>user_activity\<close> in which a user answered a question
  incorrectly: the \<open>COUNT(*)\<close> of the group of that question in the query of
  \<open>GetMostFrequentIncorrectQuestions\<close>.
\<close>

definition incorrectCount :: "DB \<Rightarrow> int \<Rightarrow> int \<Rightarrow> nat" where
  "incorrectCount d userID q =
     length (filter (\<lambda>a. QuestionNumber a = q)
               (filter (\<lambda>a. UserID a = userID \<and> \<not> Correct a) (user_activity d)))"

text \<open>
  The question numbers of the rows that a call of \<open>GetMostFrequentIncorrectQuestions\<close>
  returns when its query works, in the order of the rows.
\<close>

definition topMissed :: "(int \<Rightarrow> int) \<Rightarrow> DB \<Rightarrow> int \<Rightarrow> int \<Rightarrow> int list" where
  "topMissed rank d userID limit =
     map QuestionNumber (fst (GetMostFrequentIncorrectQuestions Succeeds rank d userID limit))"

text \<open>
  A database in which user 42 has missed question 1 and question 2 five times each,
  question 3 twice and question 4 once; it also holds a miss of another user and a
  correct answer of user 42.
\<close>

definition missed :: "int \<Rightarrow> int \<Rightarrow> UserActivity" where
  "missed u q = \<lparr>UserID = u, QuestionNumber = q, AnswerNumber = 0, Correct = False,
     Timestamp = 0\<rparr>"

definition missedDB :: DB where
  "missedDB = \<lparr>user_activity =
       map (missed 42) [1, 2, 1, 2, 3, 1, 2, 4, 1, 2, 3, 1, 2] @
       [missed 8 4, (missed 42 4)\<lparr>Correct := True\<rparr>],
     deepseek_cache = Map.empty\<rparr>"

text \<open>
  Two callbacks that are both handled before either of their goroutines runs; then the
  goroutines run, the one of the first callback first.
\<close>

definition bothPending :: "world \<Rightarrow> CallbackQuery \<Rightarrow> CallbackQuery \<Rightarrow> Bot \<Rightarrow> Bot" where
  "bothPending w callback1 callback2 b =
     (case handleCallback w callback1 b of
        (b1, started1) \<Rightarrow>
          (case handleCallback w callback2 b1 of
             (b2, started2) \<Rightarrow>
               (let b3 = (case started1 of None \<Rightarrow> b2 | Some c \<Rightarrow> analysisGoroutine w c b2)
                in case started2 of None \<Rightarrow> b3 | Some c \<Rightarrow> analysisGoroutine w c b3)))"

section \<open>Properties of the persistence layer\<close>

lemma recordAll_correct_count:
  "length (filter (\<lambda>a. UserID a = u \<and> Correct a) (user_activity (recordAll calls d))) =
     length (filter (\<lambda>a. UserID a = u \<and> Correct a) (user_activity d)) +
     length (filter (\<lambda>(io, now, u', q, a, c). io = Succeeds \<and> u' = u \<and> c) calls)"
proof (induction calls arbitrary: d)
  case Nil
  show ?case by simp
next
  case (Cons call calls)
  obtain io now u' q a c where call: "call = (io, now, u', q, a, c)"
    by (cases call) auto
  show ?case
    by (cases io) (simp_all add: call Cons.IH SaveUserActivity_def)
qed

lemma recordAll_incorrect_count:
  "length (filter (\<lambda>a. UserID a = u \<and> \<not> Correct a) (user_activity (recordAll calls d))) =
     length (filter (\<lambda>a. UserID a = u \<and> \<not> Correct a) (user_activity d)) +
     length (filter (\<lambda>(io, now, u', q, a, c). io = Succeeds \<and> u' = u \<and> \<not> c) calls)"
proof (induction calls arbitrary: d)
  case Nil
  show ?case by simp
next
  case (Cons call calls)
  obtain io now u' q a c where call: "call = (io, now, u', q, a, c)"
    by (cases call) auto
  show ?case
    by (cases io) (simp_all add: call Cons.IH SaveUserActivity_def)
qed

lemma incorrect_is_rest:
  "int (length (filter (\<lambda>(io, now, u', q, a, c). io = Succeeds \<and> u' = u \<and> \<not> c) calls)) =
     int (length (filter (\<lambda>(io, now, u', q, a, c). io = Succeeds \<and> u' = u) calls))
     - int (length (filter (\<lambda>(io, now, u', q, a, c). io = Succeeds \<and> u' = (u::int) \<and> c)
         (calls :: (driver \<times> int \<times> int \<times> int \<times> int \<times> bool) list)))"
  by (induction calls) auto

text \<open>
  Claim C6. After any sequence of calls of \<open>SaveUserActivity\<close> on an empty activity
  table, \<open>GetUserStats\<close> for a user returns as \<open>correct\<close> the number \<open>C\<close> of records that
  were stored for that user with \<open>correct = true\<close>, and as \<open>incorrect\<close> the number \<open>N - C\<close>,
  where \<open>N\<close> is the number of records stored for that user. Records of other users and
  calls whose insert failed do not count.
\<close>

theorem summarize_counts:
  "GetUserStats Succeeds Succeeds (recordAll calls (d\<lparr>user_activity := []\<rparr>)) u =
     (int (length (filter (\<lambda>(io, now, u', q, a, c). io = Succeeds \<and> u' = u \<and> c) calls)),
      int (length (filter (\<lambda>(io, now, u', q, a, c). io = Succeeds \<and> u' = u) calls))
        - int (length (filter (\<lambda>(io, now, u', q, a, c). io = Succeeds \<and> u' = u \<and> c) calls)),
      None)"
proof -
  have right: "length (filter (\<lambda>a. UserID a = u \<and> Correct a)
        (user_activity (recordAll calls (d\<lparr>user_activity := []\<rparr>)))) =
      length (filter (\<lambda>(io, now, u', q, a, c). io = Succeeds \<and> u' = u \<and> c) calls)"
    using recordAll_correct_count [of u calls "d\<lparr>user_activity := []\<rparr>"] by simp
  have wrong: "length (filter (\<lambda>a. UserID a = u \<and> \<not> Correct a)
        (user_activity (recordAll calls (d\<lparr>user_activity := []\<rparr>)))) =
      length (filter (\<lambda>(io, now, u', q, a, c). io = Succeeds \<and> u' = u \<and> \<not> c) calls)"
    using recordAll_incorrect_count [of u calls "d\<lparr>user_activity := []\<rparr>"] by simp
  show ?thesis
    unfolding GetUserStats_def Let_def right wrong incorrect_is_rest by simp
qed

text \<open>
  Claim C2, as the code has it. The cache is not append-once: a write replaces whatever
  entry the key had. After a successful \<open>CacheDeepseekResponse\<close> the key holds exactly
  the pair just written, all other keys and the activity table are as before; a failed
  write changes nothing.
\<close>

theorem cache_write_replaces:
  "deepseek_cache (fst (CacheDeepseekResponse Succeeds d q text idx)) =
     (deepseek_cache d)(q \<mapsto> (text, idx))
   \<and> user_activity (fst (CacheDeepseekResponse Succeeds d q text idx)) = user_activity d
   \<and> GetCachedDeepseekResponse Succeeds (fst (CacheDeepseekResponse Succeeds d q text idx)) q =
       (text, idx, None)
   \<and> fst (CacheDeepseekResponse Fails d q text idx) = d"
  by (simp add: CacheDeepseekResponse_def GetCachedDeepseekResponse_def scanCacheRow_def)

text \<open>
  The claim C2 as stated fails: question 5 holds the resolved index 1, and one more
  write stores the index -1 over it.
\<close>

theorem cache_append_once_counterexample:
  "GetCachedDeepseekResponse Succeeds resolvedDB 5 = (''B is right'', 1, None)
   \<and> GetCachedDeepseekResponse Succeeds
        (fst (CacheDeepseekResponse Succeeds resolvedDB 5 ''no idea'' (-1))) 5 =
       (''no idea'', -1, None)"
  by (simp add: resolvedDB_def CacheDeepseekResponse_def GetCachedDeepseekResponse_def
      scanCacheRow_def)

text \<open>
  Claim C8, as the code has it. After a \<open>CacheDeepseekResponse\<close> that returned no error,
  \<open>GetCachedDeepseekResponse\<close> for the same key returns the pair that was stored, and its
  query does not end in \<open>sql.ErrNoRows\<close>. The function answers "no cached response" with
  the empty text, the index -1 and no error; what it returns after the write is that
  answer exactly when the stored pair is the empty text with the index -1, and differs
  from it for every other pair.
\<close>

theorem get_after_put:
  "CacheDeepseekResponse io d q text idx = (d', None) \<Longrightarrow>
     GetCachedDeepseekResponse Succeeds d' q = (text, idx, None)
     \<and> snd (scanCacheRow io' d' q) \<noteq> Some ErrNoRows
     \<and> (GetCachedDeepseekResponse Succeeds d' q = ([], -1, None)) = (text = [] \<and> idx = -1)"
  by (cases io; cases io')
     (auto simp: CacheDeepseekResponse_def GetCachedDeepseekResponse_def scanCacheRow_def)

theorem get_after_put_witness:
  "CacheDeepseekResponse Succeeds resolvedDB 9 ''text'' 2 =
     (fst (CacheDeepseekResponse Succeeds resolvedDB 9 ''text'' 2), None)
   \<and> GetCachedDeepseekResponse Succeeds
       (fst (CacheDeepseekResponse Succeeds resolvedDB 9 ''text'' 2)) 9 = (''text'', 2, None)
   \<and> snd (scanCacheRow Succeeds (fst (CacheDeepseekResponse Succeeds resolvedDB 9 ''text'' 2)) 9)
       \<noteq> Some ErrNoRows
   \<and> GetCachedDeepseekResponse Succeeds
       (fst (CacheDeepseekResponse Succeeds resolvedDB 9 ''text'' 2)) 9 \<noteq> ([], -1, None)"
proof -
  have put: "CacheDeepseekResponse Succeeds resolvedDB 9 ''text'' 2 =
     (fst (CacheDeepseekResponse Succeeds resolvedDB 9 ''text'' 2), None)"
    by (simp add: CacheDeepseekResponse_def)
  from get_after_put [OF put, of Succeeds] put show ?thesis by simp
qed

lemma incorrectCounts_groups:
  "incorrectCounts (user_activity d) u =
     map (\<lambda>q. (q, incorrectCount d u q))
       (remdups (map QuestionNumber
          (filter (\<lambda>a. UserID a = u \<and> \<not> Correct a) (user_activity d))))"
  by (simp add: incorrectCounts_def incorrectCount_def Let_def)

lemma missed_questions:
  "set (remdups (map QuestionNumber
          (filter (\<lambda>a. UserID a = u \<and> \<not> Correct a) (user_activity d)))) =
     {q. 0 < incorrectCount d u q}"
  by (auto simp: incorrectCount_def filter_empty_conv)

lemma sqlLimit_map: "map f (sqlLimit limit xs) = sqlLimit limit (map f xs)"
  by (simp add: sqlLimit_def take_map)

lemma ordered_groups:
  assumes "distinct qs"
  shows "\<exists>rs. map fst (orderByCountDesc rank (map (\<lambda>q. (q, cnt q)) qs)) = rs
    \<and> distinct rs \<and> set rs = set qs \<and> sorted (map (\<lambda>q. - int (cnt q)) rs)"
proof -
  let ?gs = "map (\<lambda>q. (q, cnt q)) qs"
  let ?xs = "orderByCountDesc rank ?gs"
  have set_xs: "set ?xs = set ?gs"
    by (simp add: orderByCountDesc_def)
  have shape: "\<And>x. x \<in> set ?xs \<Longrightarrow> snd x = cnt (fst x)"
    unfolding set_xs by auto
  have "distinct ?gs"
    using assms by (simp add: distinct_map inj_on_def)
  then have "distinct ?xs"
    by (simp add: orderByCountDesc_def)
  moreover have "inj_on fst (set ?xs)"
    by (rule inj_onI) (metis prod.expand shape)
  ultimately have d: "distinct (map fst ?xs)"
    by (simp add: distinct_map)
  have s: "set (map fst ?xs) = set qs"
    using set_xs by (simp add: image_image)
  have "sorted (map (\<lambda>(q, c). - int c) ?xs)"
    unfolding orderByCountDesc_def by (rule sorted_sort_key)
  moreover have "map (\<lambda>(q, c). - int c) ?xs = map (\<lambda>q. - int (cnt q)) (map fst ?xs)"
    using shape by (auto split: prod.splits)
  ultimately have "sorted (map (\<lambda>q. - int (cnt q)) (map fst ?xs))"
    by simp
  with d s show ?thesis by blast
qed

lemma ranked_prefix:
  assumes sorted: "sorted (map (\<lambda>q. - int (cnt q)) rs)"
    and res: "res = take n rs \<or> res = rs"
  shows "(\<forall>i j. i < j \<and> j < length res \<longrightarrow> cnt (res ! j) \<le> cnt (res ! i))
    \<and> (\<forall>q. q \<in> set rs \<and> q \<notin> set res \<longrightarrow> (\<forall>p \<in> set res. cnt q \<le> cnt p))"
proof -
  obtain m where m: "res = take m rs"
    using res by (metis take_all order_refl)
  have split: "rs = res @ drop m rs"
    by (simp add: m)
  have both: "sorted (map (\<lambda>q. - int (cnt q)) res @ map (\<lambda>q. - int (cnt q)) (drop m rs))"
    using sorted by (subst (asm) split) simp
  then have front: "sorted (map (\<lambda>q. - int (cnt q)) res)"
    and cross: "\<forall>p \<in> set res. \<forall>q \<in> set (drop m rs). cnt q \<le> cnt p"
    by (auto simp: sorted_append)
  have order: "\<forall>i j. i < j \<and> j < length res \<longrightarrow> cnt (res ! j) \<le> cnt (res ! i)"
    using front by (fastforce simp: sorted_iff_nth_mono_less)
  have rest: "\<forall>q. q \<in> set rs \<and> q \<notin> set res \<longrightarrow> (\<forall>p \<in> set res. cnt q \<le> cnt p)"
  proof (intro allI impI)
    fix q assume "q \<in> set rs \<and> q \<notin> set res"
    then have "q \<in> set (drop m rs)"
      by (metis split Un_iff set_append)
    with cross show "\<forall>p \<in> set res. cnt q \<le> cnt p" by blast
  qed
  from order rest show ?thesis by blast
qed

lemma topMissed_shape:
  "\<exists>rs. distinct rs \<and> set rs = {q. 0 < incorrectCount d u q}
     \<and> sorted (map (\<lambda>q. - int (incorrectCount d u q)) rs)
     \<and> topMissed rank d u limit = sqlLimit limit rs"
proof -
  let ?qs = "remdups (map QuestionNumber
      (filter (\<lambda>a. UserID a = u \<and> \<not> Correct a) (user_activity d)))"
  obtain rs where rs:
    "map fst (orderByCountDesc rank (map (\<lambda>q. (q, incorrectCount d u q)) ?qs)) = rs"
    "distinct rs" "set rs = set ?qs"
    "sorted (map (\<lambda>q. - int (incorrectCount d u q)) rs)"
    using ordered_groups [of ?qs rank "incorrectCount d u"] by auto
  have "topMissed rank d u limit = sqlLimit limit rs"
    by (simp add: topMissed_def GetMostFrequentIncorrectQuestions_def incorrectCounts_groups
        sqlLimit_map [symmetric] rs(1) [symmetric] split_def comp_def)
  with rs show ?thesis
    unfolding missed_questions by blast
qed


lemma missedDB_counts:
  "incorrectCounts (user_activity missedDB) 42 = [(4, 1), (3, 2), (1, 5), (2, 5)]"
  by (simp add: missedDB_def missed_def incorrectCounts_def)

lemma scenario_order:
  "topMissed rank missedDB 42 3 = [1, 2, 3] \<or> topMissed rank missedDB 42 3 = [2, 1, 3]"
  by (simp add: topMissed_def GetMostFrequentIncorrectQuestions_def missedDB_counts
      orderByCountDesc_def sqlLimit_def)

text \<open>
  Claim C7, as the code has it. For a limit that is not negative, the query returns at
  most \<open>limit\<close> question numbers, namely as many as the limit and the number of missed
  questions allow; they are distinct, each has been missed by the user, they are in
  descending order of the user's incorrect count, and no missed question that is left
  out has a greater count than a returned one. This holds for every order \<open>rank\<close> in
  which the storage engine may put equal counts. With the counts 5, 5, 2, 1 for the
  questions 1, 2, 3, 4 and the limit 3, the first two question numbers returned are 1
  and 2 in either order and the third is 3. For a negative limit SQLite applies no
  bound and every missed question is returned.
\<close>

theorem top_missed_ranking:
  "(0 \<le> limit \<longrightarrow> int (length (topMissed rank d u limit)) \<le> limit)
   \<and> (0 \<le> limit \<longrightarrow>
        length (topMissed rank d u limit) =
        min (nat limit) (card {q. 0 < incorrectCount d u q}))
   \<and> (limit < 0 \<longrightarrow> set (topMissed rank d u limit) = {q. 0 < incorrectCount d u q})
   \<and> distinct (topMissed rank d u limit)
   \<and> set (topMissed rank d u limit) \<subseteq> {q. 0 < incorrectCount d u q}
   \<and> (\<forall>i j. i < j \<and> j < length (topMissed rank d u limit) \<longrightarrow>
          incorrectCount d u (topMissed rank d u limit ! j)
          \<le> incorrectCount d u (topMissed rank d u limit ! i))
   \<and> (\<forall>q. 0 < incorrectCount d u q \<and> q \<notin> set (topMissed rank d u limit) \<longrightarrow>
          (\<forall>p \<in> set (topMissed rank d u limit).
             incorrectCount d u q \<le> incorrectCount d u p))
   \<and> length (topMissed rank' missedDB 42 3) = 3
   \<and> set (take 2 (topMissed rank' missedDB 42 3)) = {1, 2}
   \<and> topMissed rank' missedDB 42 3 ! 2 = 3"
proof -
  obtain rs where rs: "distinct rs" "set rs = {q. 0 < incorrectCount d u q}"
    "sorted (map (\<lambda>q. - int (incorrectCount d u q)) rs)"
    "topMissed rank d u limit = sqlLimit limit rs"
    using topMissed_shape by blast
  let ?res = "topMissed rank d u limit"
  have prefix: "?res = take (nat limit) rs \<or> ?res = rs"
    by (simp add: rs(4) sqlLimit_def)
  have size: "length rs = card {q. 0 < incorrectCount d u q}"
    using rs(1,2) distinct_card by fastforce
  have bounded: "0 \<le> limit \<longrightarrow>
      length ?res = min (nat limit) (card {q. 0 < incorrectCount d u q})"
    by (auto simp: rs(4) sqlLimit_def size)
  then have most: "0 \<le> limit \<longrightarrow> int (length ?res) \<le> limit"
    by auto
  have unbounded: "limit < 0 \<longrightarrow> set ?res = {q. 0 < incorrectCount d u q}"
    by (simp add: rs(4) sqlLimit_def rs(2))
  have once: "distinct ?res"
    using prefix rs(1) by auto
  have part: "set ?res \<subseteq> {q. 0 < incorrectCount d u q}"
  proof
    fix q assume "q \<in> set ?res"
    then have "q \<in> set rs"
      using prefix by (auto dest: in_set_takeD)
    then show "q \<in> {q. 0 < incorrectCount d u q}"
      by (simp add: rs(2))
  qed
  have ranked: "(\<forall>i j. i < j \<and> j < length ?res \<longrightarrow>
          incorrectCount d u (?res ! j) \<le> incorrectCount d u (?res ! i))
    \<and> (\<forall>q. q \<in> set rs \<and> q \<notin> set ?res \<longrightarrow>
          (\<forall>p \<in> set ?res. incorrectCount d u q \<le> incorrectCount d u p))"
    using rs(3) prefix by (rule ranked_prefix)
  have scenario: "length (topMissed rank' missedDB 42 3) = 3
      \<and> set (take 2 (topMissed rank' missedDB 42 3)) = {1, 2}
      \<and> topMissed rank' missedDB 42 3 ! 2 = 3"
    using scenario_order [of rank'] by (auto simp: numeral_2_eq_2)
  show ?thesis
    using most bounded unbounded once part ranked scenario unfolding rs(2) by blast
qed

theorem top_missed_ranking_witness:
  "(0::int) \<le> 3
   \<and> incorrectCount missedDB 42 1 = 5 \<and> incorrectCount missedDB 42 2 = 5
   \<and> incorrectCount missedDB 42 3 = 2 \<and> incorrectCount missedDB 42 4 = 1
   \<and> topMissed (\<lambda>q. - q) missedDB 42 3 = [2, 1, 3]
   \<and> int (length (topMissed (\<lambda>q. - q) missedDB 42 3)) \<le> 3
   \<and> 4 \<notin> set (topMissed (\<lambda>q. - q) missedDB 42 3)
   \<and> incorrectCount missedDB 42 4 \<le> incorrectCount missedDB 42 3"
proof -
  have top: "topMissed (\<lambda>q. - q) missedDB 42 3 = [2, 1, 3]"
    by (simp add: topMissed_def GetMostFrequentIncorrectQuestions_def missedDB_counts
        orderByCountDesc_def sqlLimit_def)
  have counts: "incorrectCount missedDB 42 1 = 5" "incorrectCount missedDB 42 2 = 5"
    "incorrectCount missedDB 42 3 = 2" "incorrectCount missedDB 42 4 = 1"
    by (simp_all add: incorrectCount_def missedDB_def missed_def)
  from top_missed_ranking [of 3 "\<lambda>q. - q" missedDB 42 "\<lambda>q. - q"]
  show ?thesis
    using top counts by simp
qed

text \<open>
  The claim C7 as stated, for every limit, fails at the limit -1: the four missed
  questions are all returned, which is more than the limit.
\<close>

theorem negative_limit_counterexample:
  "length (topMissed (\<lambda>q. q) missedDB 42 (-1)) = 4
   \<and> \<not> int (length (topMissed (\<lambda>q. q) missedDB 42 (-1))) \<le> -1"
  by (simp add: topMissed_def GetMostFrequentIncorrectQuestions_def missedDB_counts
      orderByCountDesc_def sqlLimit_def)


lemma validQuestions_filter:
  "validQuestions acc qs = acc @ filter (\<lambda>q. Number q \<noteq> -1) qs"
  by (induction qs arbitrary: acc) simp_all

text \<open>
  Claim C10. When \<open>loadQuestions\<close> returns questions, they are the decoded questions
  without those whose \<open>Number\<close> is -1, in the order of the file, so every loaded question
  has a \<open>Number\<close> other than -1.
\<close>

theorem loadQuestions_keeps_valid:
  "loadQuestions decoded = Inr loaded \<Longrightarrow>
     (\<exists>qs. decoded = Inr qs \<and> loaded = filter (\<lambda>q. Number q \<noteq> -1) qs)
     \<and> (\<forall>q \<in> set loaded. Number q \<noteq> -1)"
  by (auto simp: loadQuestions_def validQuestions_filter split: sum.splits)

theorem loadQuestions_keeps_valid_witness:
  "loadQuestions (Inr [unknownQuestion, brokenQuestion, knownQuestion]) =
     Inr [unknownQuestion, knownQuestion]
   \<and> Number unknownQuestion \<noteq> -1 \<and> Number knownQuestion \<noteq> -1"
proof -
  have load: "loadQuestions (Inr [unknownQuestion, brokenQuestion, knownQuestion]) =
      Inr [unknownQuestion, knownQuestion]"
    by (simp add: loadQuestions_def unknownQuestion_def brokenQuestion_def knownQuestion_def)
  from loadQuestions_keeps_valid [OF load] load show ?thesis by simp
qed

section \<open>Properties of the AI adapter\<close>

text \<open>
  Claim C5. When the exchange with Deepseek yields a response, \<open>AnalyzeQuestion\<close> returns
  as index the \<open>RightAnswer\<close> of the question if that lies within the answers, and -1
  otherwise; two different responses give the same index; and for a question whose
  \<open>RightAnswer\<close> is -1 the index is -1 whatever the exchange came to.
\<close>

theorem AnalyzeQuestion_index:
  "AnalyzeQuestion (Content content) question =
     (content,
      (if 0 \<le> RightAnswer question \<and> RightAnswer question < int (length (Answers question))
       then RightAnswer question else -1),
      None)
   \<and> fst (snd (AnalyzeQuestion (Content content) question)) =
       fst (snd (AnalyzeQuestion (Content content') question))
   \<and> (RightAnswer question = -1 \<longrightarrow> fst (snd (AnalyzeQuestion reply question)) = -1)"
  by (cases reply) (simp_all add: AnalyzeQuestion_def extractRightAnswerFromContent_def)

theorem AnalyzeQuestion_index_witness:
  "RightAnswer unknownQuestion = -1
   \<and> fst (snd (AnalyzeQuestion (Content ''B is right'') unknownQuestion)) = -1
   \<and> AnalyzeQuestion (Content ''B is right'') knownQuestion = (''B is right'', 1, None)"
  using AnalyzeQuestion_index [of "''B is right''" unknownQuestion "''B is right''"
      "Content ''B is right''"]
    AnalyzeQuestion_index [of "''B is right''" knownQuestion "''B is right''" TimedOut]
  by (simp add: unknownQuestion_def knownQuestion_def)

section \<open>Properties of handleCallback and its goroutine\<close>

lemma answerText_total:
  "answerText question i =
     Some (if 0 \<le> i \<and> i < int (length (Answers question)) then Answers question ! nat i
           else ''Unknown'')"
  by (simp add: answerText_def index_def)

lemma handleCallback_found:
  assumes "parseCallbackData (Data callback) = Some (questionNum, answerNum)"
    and "findQuestion (questions b) questionNum = Some question"
  shows "handleCallback w callback b =
    answerQuestion w callback question questionNum answerNum (sendCallbackResponse (ID callback) b)"
  using assms by (simp add: handleCallback_def sendCallbackResponse_def)

lemma answerQuestion_db:
  "db (fst (answerQuestion w callback question questionNum answerNum b)) =
     fst (SaveUserActivity (activityInsert w) (clock w) (db b) (From_ID callback) questionNum
            answerNum
            (fst (knownRightAnswer (cacheLookup w) (db b) question questionNum) \<noteq> -1 \<and>
             answerNum = fst (knownRightAnswer (cacheLookup w) (db b) question questionNum)))"
  by (cases "knownRightAnswer (cacheLookup w) (db b) question questionNum")
     (auto simp: answerQuestion_def Let_def answerText_total sendMessage_def
        split: option.splits)

lemma SaveUserActivity_rows:
  "user_activity (fst (SaveUserActivity io now d u q a c)) =
     user_activity d @
     (case io of
        Succeeds \<Rightarrow> [\<lparr>UserID = u, QuestionNumber = q, AnswerNumber = a, Correct = c,
                      Timestamp = now\<rparr>]
      | Fails \<Rightarrow> [])"
  by (cases io) (simp_all add: SaveUserActivity_def)

lemma SaveUserActivity_cache:
  "deepseek_cache (fst (SaveUserActivity io now d u q a c)) = deepseek_cache d"
  by (cases io) (simp_all add: SaveUserActivity_def)

lemma answerQuestion_known:
  "fst (knownRightAnswer (cacheLookup w) (db b) question questionNum) \<noteq> -1 \<Longrightarrow>
     snd (answerQuestion w callback question questionNum answerNum b) = None"
  by (cases "knownRightAnswer (cacheLookup w) (db b) question questionNum")
     (auto simp: answerQuestion_def Let_def answerText_total)

lemma answerQuestion_deepseek:
  "deepseek (fst (answerQuestion w callback question questionNum answerNum b)) = deepseek b"
  by (cases "knownRightAnswer (cacheLookup w) (db b) question questionNum")
     (auto simp: answerQuestion_def Let_def answerText_total sendMessage_def
        split: option.splits)

lemma answerQuestion_panicked:
  "panicked (fst (answerQuestion w callback question questionNum answerNum b)) = panicked b"
  by (cases "knownRightAnswer (cacheLookup w) (db b) question questionNum")
     (auto simp: answerQuestion_def Let_def answerText_total sendMessage_def
        split: option.splits)

lemma answerQuestion_api:
  "api (fst (answerQuestion w callback question questionNum answerNum b)) =
     api b @
     (let r = fst (knownRightAnswer (cacheLookup w) (db b) question questionNum)
      in if r \<noteq> -1 then
           [SendMessage (Message_Chat_ID callback)
              (if answerNum = r then CorrectWellDone
               else NotCorrect (if 0 \<le> r \<and> r < int (length (Answers question))
                                then Answers question ! nat r else ''Unknown''))]
         else (case initialSend w of
                 None \<Rightarrow> []
               | Some initialMessageID \<Rightarrow>
                   [SendMessage (Message_Chat_ID callback)
                      (Analyzing (if 0 \<le> answerNum \<and> answerNum < int (length (Answers question))
                                  then Answers question ! nat answerNum else ''Unknown''))]))"
  by (cases "knownRightAnswer (cacheLookup w) (db b) question questionNum")
     (auto simp: answerQuestion_def Let_def answerText_total sendMessage_def
        split: option.splits)

lemma answerQuestion_closure:
  "snd (answerQuestion w callback question questionNum answerNum b) = Some c \<Longrightarrow>
     c_question c = question \<and> c_questionNum c = questionNum \<and> c_answerNum c = answerNum
     \<and> c_rightAnswer c = -1 \<and> c_cachedResponse c = []
     \<and> c_userAnswer c = (if 0 \<le> answerNum \<and> answerNum < int (length (Answers question))
                          then Answers question ! nat answerNum else ''Unknown'')"
  by (cases "knownRightAnswer (cacheLookup w) (db b) question questionNum")
     (auto simp: answerQuestion_def Let_def answerText_total knownRightAnswer_def
        split: option.splits if_splits prod.splits)

lemma tellVerdict_api:
  "api (tellVerdict c r resp b) =
     api b @
     (if r \<noteq> -1 \<and> resp \<noteq> [] then
        [EditMessage (c_chatID c) (c_initialMessageID c)
           (AnalysisWithVerdict (c_userAnswer c)
              (if c_answerNum c = r then AnalysedCorrect
               else AnalysedIncorrect
                      (if 0 \<le> r \<and> r < int (length (Answers (c_question c)))
                       then Answers (c_question c) ! nat r else ''Unknown''))
              resp)]
      else [])"
  by (simp add: tellVerdict_def Let_def answerText_total editMessage_def)

lemma tellVerdict_rest:
  "db (tellVerdict c r resp b) = db b \<and> deepseek (tellVerdict c r resp b) = deepseek b
   \<and> panicked (tellVerdict c r resp b) = panicked b"
  by (simp add: tellVerdict_def Let_def answerText_total editMessage_def)

lemma CacheDeepseekResponse_rows:
  "user_activity (fst (CacheDeepseekResponse io d q text idx)) = user_activity d"
  by (cases io) (simp_all add: CacheDeepseekResponse_def)

lemma goroutine_rows:
  "user_activity (db (analysisGoroutine w c b)) = user_activity (db b)"
  by (cases "GetCachedDeepseekResponse (cacheRecheck w) (db b) (c_questionNum c)";
      cases "AnalyzeQuestion (analysis w) (c_question c)")
     (simp add: analysisGoroutine_def Let_def tellVerdict_rest editMessage_def
        CacheDeepseekResponse_rows)

lemma goroutine_panicked:
  "panicked (analysisGoroutine w c b) = panicked b"
  by (cases "GetCachedDeepseekResponse (cacheRecheck w) (db b) (c_questionNum c)";
      cases "AnalyzeQuestion (analysis w) (c_question c)")
     (simp add: analysisGoroutine_def Let_def tellVerdict_rest editMessage_def)

lemma goroutine_deepseek:
  "deepseek (analysisGoroutine w c b) =
     deepseek b @
     (case GetCachedDeepseekResponse (cacheRecheck w) (db b) (c_questionNum c) of
        (cachedResp, cachedRightAnswer, err) \<Rightarrow>
          if err = None \<and> cachedRightAnswer \<noteq> -1 \<and> cachedResp \<noteq> [] then []
          else if c_cachedResponse c = [] then [Number (c_question c)] else [])"
  by (cases "GetCachedDeepseekResponse (cacheRecheck w) (db b) (c_questionNum c)";
      cases "AnalyzeQuestion (analysis w) (c_question c)")
     (simp add: analysisGoroutine_def Let_def tellVerdict_rest editMessage_def)


lemma handleCallback_deepseek:
  "deepseek (fst (handleCallback w callback b)) = deepseek b"
  by (auto simp: handleCallback_def Let_def answerQuestion_deepseek sendCallbackResponse_def
        sendMessage_def split: option.splits)

lemma handleCallback_cache:
  "deepseek_cache (db (fst (handleCallback w callback b))) = deepseek_cache (db b)"
  by (auto simp: handleCallback_def Let_def answerQuestion_db SaveUserActivity_cache
        sendCallbackResponse_def sendMessage_def split: option.splits)

lemma handleCallback_closure_num:
  "parseCallbackData (Data callback) = Some (questionNum, answerNum) \<Longrightarrow>
   snd (handleCallback w callback b) = Some c \<Longrightarrow>
     c_questionNum c = questionNum \<and> c_cachedResponse c = []"
  by (auto simp: handleCallback_def Let_def dest: answerQuestion_closure split: option.splits)

lemma handleCallback_closure_empty:
  "snd (handleCallback w callback b) = Some c \<Longrightarrow> c_cachedResponse c = []"
  by (auto simp: handleCallback_def Let_def dest: answerQuestion_closure split: option.splits)

lemma knownRightAnswer_value:
  "fst (knownRightAnswer io d question questionNum) =
     (case io of
        Fails \<Rightarrow> RightAnswer question
      | Succeeds \<Rightarrow>
          (case deepseek_cache d questionNum of
             None \<Rightarrow> RightAnswer question
           | Some (t, r) \<Rightarrow> if r \<noteq> -1 then r else RightAnswer question))"
  by (cases io)
     (auto simp: knownRightAnswer_def GetCachedDeepseekResponse_def scanCacheRow_def
        split: option.splits)

lemma knownRightAnswer_known:
  "RightAnswer question \<noteq> -1 \<Longrightarrow> fst (knownRightAnswer io d question questionNum) \<noteq> -1"
  by (cases io) (auto simp: knownRightAnswer_value split: option.splits)

lemma knownRightAnswer_unresolved:
  "RightAnswer question = -1 \<Longrightarrow>
   \<forall>t r. deepseek_cache d questionNum = Some (t, r) \<longrightarrow> r = -1 \<Longrightarrow>
     fst (knownRightAnswer io d question questionNum) = -1"
  by (cases io) (auto simp: knownRightAnswer_value split: option.splits)

lemma submission_known:
  "snd (handleCallback w callback b) = None \<Longrightarrow>
     submission w callback b = fst (handleCallback w callback b)"
  by (cases "handleCallback w callback b") (simp add: submission_def)

lemma submission_started:
  "snd (handleCallback w callback b) = Some c \<Longrightarrow>
     submission w callback b = analysisGoroutine w c (fst (handleCallback w callback b))"
  by (cases "handleCallback w callback b") (simp add: submission_def)

lemma submission_rows:
  "user_activity (db (submission w callback b)) =
     user_activity (db (fst (handleCallback w callback b)))"
  by (cases "snd (handleCallback w callback b)")
     (simp_all add: submission_known submission_started goroutine_rows)

lemmas scenario_defs =
  knownQuestion_def unknownQuestion_def emptyQuestion_def emptyDB_def resolvedDB_def
  staleDB_def botWith_def calmWorld_def timeoutWorld_def press_def

lemmas handler_defs =
  handleCallback_def answerQuestion_def parseCallbackData_def HasPrefix_def TrimPrefix_def
  callbackPrefix_def Atoi_def isDigit_def digitsValue_def findQuestion_def
  knownRightAnswer_def GetCachedDeepseekResponse_def scanCacheRow_def SaveUserActivity_def
  sendCallbackResponse_def sendMessage_def answerText_def index_def Let_def submission_def
  analysisGoroutine_def AnalyzeQuestion_def extractRightAnswerFromContent_def
  editMessage_def CacheDeepseekResponse_def tellVerdict_def

text \<open>
  Claim C1, as the code has it. For a submission on a question whose right answer is
  neither in the dataset nor resolved in the cache, \<open>handleCallback\<close> itself saves the
  activity record, before any verdict is known: exactly one record with
  \<open>Correct = False\<close> is appended when the insert works, none when it fails. When the
  call to Deepseek then fails or times out, the goroutine leaves the activity table as
  \<open>handleCallback\<close> left it, so the record saved at submission time stays.
\<close>

theorem activity_saved_at_submission:
  assumes "parseCallbackData (Data callback) = Some (questionNum, answerNum)"
    and "findQuestion (questions b) questionNum = Some question"
    and "RightAnswer question = -1"
    and "\<forall>t r. deepseek_cache (db b) questionNum = Some (t, r) \<longrightarrow> r = -1"
  shows "user_activity (db (fst (handleCallback w callback b))) =
      user_activity (db b) @
      (case activityInsert w of
         Succeeds \<Rightarrow> [\<lparr>UserID = From_ID callback, QuestionNumber = questionNum,
                       AnswerNumber = answerNum, Correct = False, Timestamp = clock w\<rparr>]
       | Fails \<Rightarrow> [])
    \<and> (snd (snd (AnalyzeQuestion (analysis w) question)) \<noteq> None \<longrightarrow>
         user_activity (db (submission w callback b)) =
         user_activity (db (fst (handleCallback w callback b))))"
proof -
  have unknown: "fst (knownRightAnswer (cacheLookup w)
      (db (sendCallbackResponse (ID callback) b)) question questionNum) = -1"
    using assms(3,4) by (intro knownRightAnswer_unresolved) (simp_all add: sendCallbackResponse_def)
  have "user_activity (db (fst (handleCallback w callback b))) =
      user_activity (db b) @
      (case activityInsert w of
         Succeeds \<Rightarrow> [\<lparr>UserID = From_ID callback, QuestionNumber = questionNum,
                       AnswerNumber = answerNum, Correct = False, Timestamp = clock w\<rparr>]
       | Fails \<Rightarrow> [])"
    unfolding handleCallback_found [OF assms(1,2)] answerQuestion_db SaveUserActivity_rows unknown
    by (cases "activityInsert w") (simp_all add: sendCallbackResponse_def)
  then show ?thesis by (simp add: submission_rows)
qed

theorem activity_saved_at_submission_witness:
  "parseCallbackData (Data (press ''answer:5:1'')) = Some (5, 1)
   \<and> findQuestion (questions (botWith emptyDB)) 5 = Some unknownQuestion
   \<and> RightAnswer unknownQuestion = -1
   \<and> deepseek_cache (db (botWith emptyDB)) 5 = None
   \<and> snd (snd (AnalyzeQuestion (analysis timeoutWorld) unknownQuestion)) = Some AdapterTimeout
   \<and> user_activity (db (fst (handleCallback timeoutWorld (press ''answer:5:1'') (botWith emptyDB)))) =
       [\<lparr>UserID = 42, QuestionNumber = 5, AnswerNumber = 1, Correct = False, Timestamp = 100\<rparr>]
   \<and> user_activity (db (submission timeoutWorld (press ''answer:5:1'') (botWith emptyDB))) =
       [\<lparr>UserID = 42, QuestionNumber = 5, AnswerNumber = 1, Correct = False, Timestamp = 100\<rparr>]"
proof -
  have parse: "parseCallbackData (Data (press ''answer:5:1'')) = Some (5, 1)"
    by (simp add: scenario_defs handler_defs)
  have find: "findQuestion (questions (botWith emptyDB)) 5 = Some unknownQuestion"
    by (simp add: scenario_defs handler_defs)
  have unknown: "RightAnswer unknownQuestion = -1"
    by (simp add: scenario_defs)
  have cache: "deepseek_cache (db (botWith emptyDB)) 5 = None"
    by (simp add: scenario_defs)
  then have unresolved:
    "\<forall>t r. deepseek_cache (db (botWith emptyDB)) 5 = Some (t, r) \<longrightarrow> r = -1"
    by simp
  have failed: "snd (snd (AnalyzeQuestion (analysis timeoutWorld) unknownQuestion)) =
      Some AdapterTimeout"
    by (simp add: scenario_defs handler_defs)
  from activity_saved_at_submission [OF parse find unknown unresolved, of timeoutWorld]
  show ?thesis
    using parse find unknown cache failed by (simp add: scenario_defs)
qed

text \<open>
  The claim C1 as stated fails: question 5 is unresolved, \<open>handleCallback\<close> has saved a
  record when it returns, and the record is there after Deepseek has timed out.
\<close>

theorem no_record_before_verdict_counterexample:
  "findQuestion (questions (botWith emptyDB)) 5 = Some unknownQuestion
   \<and> RightAnswer unknownQuestion = -1
   \<and> deepseek_cache (db (botWith emptyDB)) 5 = None
   \<and> user_activity (db (fst (handleCallback timeoutWorld (press ''answer:5:1'') (botWith emptyDB)))) =
       [\<lparr>UserID = 42, QuestionNumber = 5, AnswerNumber = 1, Correct = False, Timestamp = 100\<rparr>]
   \<and> snd (snd (AnalyzeQuestion (analysis timeoutWorld) unknownQuestion)) = Some AdapterTimeout
   \<and> user_activity (db (submission timeoutWorld (press ''answer:5:1'') (botWith emptyDB))) =
       [\<lparr>UserID = 42, QuestionNumber = 5, AnswerNumber = 1, Correct = False, Timestamp = 100\<rparr>]"
  by (simp add: scenario_defs handler_defs)


text \<open>
  Claim C3, as the code has it. For a question whose \<open>RightAnswer\<close> is not -1,
  \<open>handleCallback\<close> starts no goroutine and \<open>AnalyzeQuestion\<close> is not called. The record
  it saves has \<open>Correct\<close> equal to whether the submitted index is the right answer the
  handler goes by: the index of the cache when the cache read works and has an index
  other than -1 for the question, and the \<open>RightAnswer\<close> of the dataset otherwise. When
  the cache has no index for the question that differs from the dataset's, this is the
  \<open>RightAnswer\<close> of the dataset.
\<close>

theorem known_answer_resolved_synchronously:
  assumes "parseCallbackData (Data callback) = Some (questionNum, answerNum)"
    and "findQuestion (questions b) questionNum = Some question"
    and "RightAnswer question \<noteq> -1"
  shows "snd (handleCallback w callback b) = None
    \<and> deepseek (submission w callback b) = deepseek b
    \<and> fst (knownRightAnswer (cacheLookup w) (db b) question questionNum) =
        (case cacheLookup w of
           Fails \<Rightarrow> RightAnswer question
         | Succeeds \<Rightarrow>
             (case deepseek_cache (db b) questionNum of
                None \<Rightarrow> RightAnswer question
              | Some (t, r) \<Rightarrow> if r \<noteq> -1 then r else RightAnswer question))
    \<and> user_activity (db (submission w callback b)) =
        user_activity (db b) @
        (case activityInsert w of
           Succeeds \<Rightarrow>
             [\<lparr>UserID = From_ID callback, QuestionNumber = questionNum,
               AnswerNumber = answerNum,
               Correct = (answerNum =
                 fst (knownRightAnswer (cacheLookup w) (db b) question questionNum)),
               Timestamp = clock w\<rparr>]
         | Fails \<Rightarrow> [])
    \<and> ((\<forall>t r. deepseek_cache (db b) questionNum = Some (t, r) \<longrightarrow>
            r = -1 \<or> r = RightAnswer question) \<longrightarrow>
        fst (knownRightAnswer (cacheLookup w) (db b) question questionNum) =
          RightAnswer question)"
proof -
  let ?b1 = "sendCallbackResponse (ID callback) b"
  have db1: "db ?b1 = db b"
    by (simp add: sendCallbackResponse_def)
  have known: "fst (knownRightAnswer (cacheLookup w) (db b) question questionNum) \<noteq> -1"
    using assms(3) by (rule knownRightAnswer_known)
  have sync: "snd (handleCallback w callback b) = None"
    unfolding handleCallback_found [OF assms(1,2)]
    by (rule answerQuestion_known) (simp add: db1 known)
  have calls: "deepseek (submission w callback b) = deepseek b"
    by (simp add: submission_known [OF sync] handleCallback_deepseek)
  have rows: "user_activity (db (submission w callback b)) =
        user_activity (db b) @
        (case activityInsert w of
           Succeeds \<Rightarrow>
             [\<lparr>UserID = From_ID callback, QuestionNumber = questionNum,
               AnswerNumber = answerNum,
               Correct = (answerNum =
                 fst (knownRightAnswer (cacheLookup w) (db b) question questionNum)),
               Timestamp = clock w\<rparr>]
         | Fails \<Rightarrow> [])"
    unfolding submission_rows handleCallback_found [OF assms(1,2)] answerQuestion_db
      SaveUserActivity_rows db1
    using known by (cases "activityInsert w") simp_all
  have agree: "(\<forall>t r. deepseek_cache (db b) questionNum = Some (t, r) \<longrightarrow>
            r = -1 \<or> r = RightAnswer question) \<longrightarrow>
        fst (knownRightAnswer (cacheLookup w) (db b) question questionNum) =
          RightAnswer question"
    by (cases "cacheLookup w") (auto simp: knownRightAnswer_value split: option.splits)
  show ?thesis
    using sync calls rows agree knownRightAnswer_value by blast
qed

theorem known_answer_resolved_synchronously_witness:
  "parseCallbackData (Data (press ''answer:3:1'')) = Some (3, 1)
   \<and> findQuestion (questions (botWith emptyDB)) 3 = Some knownQuestion
   \<and> RightAnswer knownQuestion = 1
   \<and> deepseek_cache (db (botWith emptyDB)) 3 = None
   \<and> snd (handleCallback calmWorld (press ''answer:3:1'') (botWith emptyDB)) = None
   \<and> deepseek (submission calmWorld (press ''answer:3:1'') (botWith emptyDB)) = []
   \<and> user_activity (db (submission calmWorld (press ''answer:3:1'') (botWith emptyDB))) =
       [\<lparr>UserID = 42, QuestionNumber = 3, AnswerNumber = 1, Correct = True, Timestamp = 100\<rparr>]"
proof -
  have parse: "parseCallbackData (Data (press ''answer:3:1'')) = Some (3, 1)"
    by (simp add: scenario_defs handler_defs)
  have find: "findQuestion (questions (botWith emptyDB)) 3 = Some knownQuestion"
    by (simp add: scenario_defs handler_defs)
  have known: "RightAnswer knownQuestion \<noteq> -1"
    by (simp add: scenario_defs)
  have cache: "deepseek_cache (db (botWith emptyDB)) 3 = None"
    by (simp add: scenario_defs)
  from known_answer_resolved_synchronously [OF parse find known, of calmWorld]
  show ?thesis
    using parse find cache by (simp add: scenario_defs)
qed

text \<open>
  The claim C3 as stated fails: question 3 has the right answer 1 in the dataset and the
  index 2 in the cache; the submitted index 1 is recorded as incorrect and the reply
  names answer C.
\<close>

theorem authoritative_index_counterexample:
  "findQuestion (questions (botWith staleDB)) 3 = Some knownQuestion
   \<and> RightAnswer knownQuestion = 1
   \<and> GetCachedDeepseekResponse Succeeds (db (botWith staleDB)) 3 = (''C is right'', 2, None)
   \<and> user_activity (db (fst (handleCallback calmWorld (press ''answer:3:1'') (botWith staleDB)))) =
       [\<lparr>UserID = 42, QuestionNumber = 3, AnswerNumber = 1, Correct = False, Timestamp = 100\<rparr>]
   \<and> api (fst (handleCallback calmWorld (press ''answer:3:1'') (botWith staleDB))) =
       [CallbackResponse ''callback'', SendMessage 42 (NotCorrect ''C'')]"
  by (simp add: scenario_defs handler_defs)

text \<open>
  Claim C4, as the code has it. The bound is per submission, not per question: the
  goroutine of a submission calls \<open>AnalyzeQuestion\<close> at most once, and a submission from
  callback to the end of its goroutine adds at most one call. No call is made when the
  re-check of the cache works and finds for the question a non-empty response with an
  index other than -1.
\<close>

theorem one_analysis_per_submission:
  "(deepseek (analysisGoroutine w c b) = deepseek b
      \<or> deepseek (analysisGoroutine w c b) = deepseek b @ [Number (c_question c)])
   \<and> (cacheRecheck w = Succeeds \<and> deepseek_cache (db b) (c_questionNum c) = Some (t, r)
        \<and> r \<noteq> -1 \<and> t \<noteq> [] \<longrightarrow>
       deepseek (analysisGoroutine w c b) = deepseek b)
   \<and> length (deepseek (submission w callback b)) \<le> length (deepseek b) + 1
   \<and> (parseCallbackData (Data callback) = Some (questionNum, answerNum)
        \<and> cacheRecheck w = Succeeds \<and> deepseek_cache (db b) questionNum = Some (t, r)
        \<and> r \<noteq> -1 \<and> t \<noteq> [] \<longrightarrow>
       deepseek (submission w callback b) = deepseek b)"
proof -
  have once: "deepseek (analysisGoroutine w c b) = deepseek b
      \<or> deepseek (analysisGoroutine w c b) = deepseek b @ [Number (c_question c)]" for w c b
    by (cases "GetCachedDeepseekResponse (cacheRecheck w) (db b) (c_questionNum c)")
       (simp add: goroutine_deepseek)
  have hit: "deepseek (analysisGoroutine w c b) = deepseek b"
    if "cacheRecheck w = Succeeds" "deepseek_cache (db b) (c_questionNum c) = Some (t, r)"
      "r \<noteq> -1" "t \<noteq> []" for c b
    using that
    by (simp add: goroutine_deepseek GetCachedDeepseekResponse_def scanCacheRow_def)
  have bound: "length (deepseek (submission w callback b)) \<le> length (deepseek b) + 1"
  proof (cases "snd (handleCallback w callback b)")
    case None
    then show ?thesis
      by (simp add: submission_known handleCallback_deepseek)
  next
    case (Some c')
    show ?thesis
      using once [of w c' "fst (handleCallback w callback b)"]
      by (auto simp: submission_started [OF Some] handleCallback_deepseek)
  qed
  have collapse: "deepseek (submission w callback b) = deepseek b"
    if parse: "parseCallbackData (Data callback) = Some (questionNum, answerNum)"
      and recheck: "cacheRecheck w = Succeeds"
      and entry: "deepseek_cache (db b) questionNum = Some (t, r)" "r \<noteq> -1" "t \<noteq> []"
  proof (cases "snd (handleCallback w callback b)")
    case None
    then show ?thesis
      by (simp add: submission_known handleCallback_deepseek)
  next
    case (Some c')
    have num: "c_questionNum c' = questionNum"
      using handleCallback_closure_num [OF parse Some] by simp
    have "deepseek (analysisGoroutine w c' (fst (handleCallback w callback b))) =
        deepseek (fst (handleCallback w callback b))"
      using recheck entry by (intro hit) (simp_all add: num handleCallback_cache)
    then show ?thesis
      by (simp add: submission_started [OF Some] handleCallback_deepseek)
  qed
  show ?thesis
    using once hit bound collapse by blast
qed

theorem one_analysis_per_submission_witness:
  "parseCallbackData (Data (press ''answer:5:2'')) = Some (5, 2)
   \<and> cacheRecheck (calmWorld\<lparr>cacheLookup := Fails\<rparr>) = Succeeds
   \<and> deepseek_cache (db (botWith resolvedDB)) 5 = Some (''B is right'', 1)
   \<and> deepseek (submission (calmWorld\<lparr>cacheLookup := Fails\<rparr>) (press ''answer:5:2'')
        (botWith resolvedDB)) = []"
proof -
  have parse: "parseCallbackData (Data (press ''answer:5:2'')) = Some (5, 2)"
    by (simp add: scenario_defs handler_defs)
  have recheck: "cacheRecheck (calmWorld\<lparr>cacheLookup := Fails\<rparr>) = Succeeds"
    by (simp add: scenario_defs)
  have entry: "deepseek_cache (db (botWith resolvedDB)) 5 = Some (''B is right'', 1)"
    by (simp add: scenario_defs)
  from one_analysis_per_submission [of "calmWorld\<lparr>cacheLookup := Fails\<rparr>" _ "botWith resolvedDB"
      "''B is right''" 1 "press ''answer:5:2''" 5 2]
  show ?thesis
    using parse recheck entry by (simp add: scenario_defs)
qed

text \<open>
  The claim C4 as stated fails: two submissions on the unresolved question 5 lead to two
  calls of \<open>AnalyzeQuestion\<close> for question 5, whether the second callback arrives after
  the goroutine of the first has ended or before it has run. The cache entry written
  after the first call has the index -1, so the question stays unresolved.
\<close>

theorem single_analysis_counterexample:
  "RightAnswer unknownQuestion = -1
   \<and> deepseek_cache (db (botWith emptyDB)) 5 = None
   \<and> deepseek (submission calmWorld (press ''answer:5:1'') (botWith emptyDB)) = [5]
   \<and> deepseek_cache (db (submission calmWorld (press ''answer:5:1'') (botWith emptyDB))) 5 =
       Some (''B is right'', -1)
   \<and> deepseek (submission calmWorld (press ''answer:5:2'')
        (submission calmWorld (press ''answer:5:1'') (botWith emptyDB))) = [5, 5]
   \<and> deepseek (bothPending calmWorld (press ''answer:5:1'') (press ''answer:5:2'')
        (botWith emptyDB)) = [5, 5]"
  by (simp add: scenario_defs handler_defs bothPending_def)

text \<open>
  Claim C9, as the code has it. The submitted index is judged correct exactly when the
  right answer the handler goes by is not -1 and equals it; so an index outside the
  answers is never judged correct when that right answer lies within the answers or is
  -1 (it is judged correct when the right answer is the same index). The replies of
  \<open>handleCallback\<close> and the verdict of the goroutine show the text "Unknown" for an index
  outside the answers and the answer at the index otherwise, and no index expression in
  \<open>handleCallback\<close> or in the goroutine panics.
\<close>

theorem verdict_and_rendering:
  assumes "parseCallbackData (Data callback) = Some (questionNum, answerNum)"
    and "findQuestion (questions b) questionNum = Some question"
    and "r = fst (knownRightAnswer (cacheLookup w) (db b) question questionNum)"
  shows "user_activity (db (fst (handleCallback w callback b))) =
        user_activity (db b) @
        (case activityInsert w of
           Succeeds \<Rightarrow>
             [\<lparr>UserID = From_ID callback, QuestionNumber = questionNum,
               AnswerNumber = answerNum, Correct = (r \<noteq> -1 \<and> answerNum = r),
               Timestamp = clock w\<rparr>]
         | Fails \<Rightarrow> [])
    \<and> api (fst (handleCallback w callback b)) =
        api b @ CallbackResponse (ID callback) #
        (if r \<noteq> -1 then
           [SendMessage (Message_Chat_ID callback)
              (if answerNum = r then CorrectWellDone
               else NotCorrect (if 0 \<le> r \<and> r < int (length (Answers question))
                                then Answers question ! nat r else ''Unknown''))]
         else (case initialSend w of
                 None \<Rightarrow> []
               | Some initialMessageID \<Rightarrow>
                   [SendMessage (Message_Chat_ID callback)
                      (Analyzing (if 0 \<le> answerNum \<and> answerNum < int (length (Answers question))
                                  then Answers question ! nat answerNum else ''Unknown''))]))
    \<and> (\<not> (0 \<le> answerNum \<and> answerNum < int (length (Answers question)))
         \<and> (r = -1 \<or> (0 \<le> r \<and> r < int (length (Answers question)))) \<longrightarrow>
       \<not> (r \<noteq> -1 \<and> answerNum = r))
    \<and> api (tellVerdict c r' resp b') =
        api b' @
        (if r' \<noteq> -1 \<and> resp \<noteq> [] then
           [EditMessage (c_chatID c) (c_initialMessageID c)
              (AnalysisWithVerdict (c_userAnswer c)
                 (if c_answerNum c = r' then AnalysedCorrect
                  else AnalysedIncorrect
                         (if 0 \<le> r' \<and> r' < int (length (Answers (c_question c)))
                          then Answers (c_question c) ! nat r' else ''Unknown''))
                 resp)]
         else [])
    \<and> panicked (fst (handleCallback w callback b)) = panicked b
    \<and> panicked (analysisGoroutine w' c b') = panicked b'"
proof -
  let ?b1 = "sendCallbackResponse (ID callback) b"
  have b1: "db ?b1 = db b" "api ?b1 = api b @ [CallbackResponse (ID callback)]"
    "panicked ?b1 = panicked b"
    by (simp_all add: sendCallbackResponse_def)
  have rows: "user_activity (db (fst (handleCallback w callback b))) =
        user_activity (db b) @
        (case activityInsert w of
           Succeeds \<Rightarrow>
             [\<lparr>UserID = From_ID callback, QuestionNumber = questionNum,
               AnswerNumber = answerNum, Correct = (r \<noteq> -1 \<and> answerNum = r),
               Timestamp = clock w\<rparr>]
         | Fails \<Rightarrow> [])"
    unfolding handleCallback_found [OF assms(1,2)] answerQuestion_db SaveUserActivity_rows b1
      assms(3)
    by simp
  have said: "api (fst (handleCallback w callback b)) =
        api b @ CallbackResponse (ID callback) #
        (if r \<noteq> -1 then
           [SendMessage (Message_Chat_ID callback)
              (if answerNum = r then CorrectWellDone
               else NotCorrect (if 0 \<le> r \<and> r < int (length (Answers question))
                                then Answers question ! nat r else ''Unknown''))]
         else (case initialSend w of
                 None \<Rightarrow> []
               | Some initialMessageID \<Rightarrow>
                   [SendMessage (Message_Chat_ID callback)
                      (Analyzing (if 0 \<le> answerNum \<and> answerNum < int (length (Answers question))
                                  then Answers question ! nat answerNum else ''Unknown''))]))"
    unfolding handleCallback_found [OF assms(1,2)] answerQuestion_api b1 assms(3) Let_def
    by simp
  have calm: "panicked (fst (handleCallback w callback b)) = panicked b"
    unfolding handleCallback_found [OF assms(1,2)] answerQuestion_panicked b1 by simp
  have range: "\<not> (0 \<le> answerNum \<and> answerNum < int (length (Answers question)))
         \<and> (r = -1 \<or> (0 \<le> r \<and> r < int (length (Answers question)))) \<longrightarrow>
       \<not> (r \<noteq> -1 \<and> answerNum = r)"
    by auto
  show ?thesis
    using rows said range tellVerdict_api calm goroutine_panicked by blast
qed

theorem verdict_and_rendering_witness:
  "parseCallbackData (Data (press ''answer:5:4'')) = Some (5, 4)
   \<and> findQuestion (questions (botWith resolvedDB)) 5 = Some unknownQuestion
   \<and> fst (knownRightAnswer (cacheLookup calmWorld) (db (botWith resolvedDB)) unknownQuestion 5) = 1
   \<and> \<not> (4 < int (length (Answers unknownQuestion)))
   \<and> user_activity (db (fst (handleCallback calmWorld (press ''answer:5:4'') (botWith resolvedDB)))) =
       [\<lparr>UserID = 42, QuestionNumber = 5, AnswerNumber = 4, Correct = False, Timestamp = 100\<rparr>]
   \<and> api (fst (handleCallback calmWorld (press ''answer:5:4'') (botWith resolvedDB))) =
       [CallbackResponse ''callback'', SendMessage 42 (NotCorrect ''B'')]
   \<and> panicked (fst (handleCallback calmWorld (press ''answer:5:4'') (botWith resolvedDB))) = False"
proof -
  have parse: "parseCallbackData (Data (press ''answer:5:4'')) = Some (5, 4)"
    by (simp add: scenario_defs handler_defs)
  have find: "findQuestion (questions (botWith resolvedDB)) 5 = Some unknownQuestion"
    by (simp add: scenario_defs handler_defs)
  have right: "1 = fst (knownRightAnswer (cacheLookup calmWorld) (db (botWith resolvedDB))
      unknownQuestion 5)"
    by (simp add: scenario_defs handler_defs)
  from verdict_and_rendering [OF parse find right]
  show ?thesis
    using parse find right by (simp add: scenario_defs)
qed

text \<open>
  The claim C9 as stated fails: question 7 has no answers, so index 0 is outside them,
  and its \<open>RightAnswer\<close> is 0. The button the bot shows for a question without answers
  submits index 0, which is recorded and announced as correct.
\<close>

theorem out_of_range_correct_counterexample:
  "parseCallbackData (Data (press ''answer:7:0'')) = Some (7, 0)
   \<and> findQuestion (questions (botWith emptyDB)) 7 = Some emptyQuestion
   \<and> length (Answers emptyQuestion) = 0
   \<and> user_activity (db (fst (handleCallback calmWorld (press ''answer:7:0'') (botWith emptyDB)))) =
       [\<lparr>UserID = 42, QuestionNumber = 7, AnswerNumber = 0, Correct = True, Timestamp = 100\<rparr>]
   \<and> api (fst (handleCallback calmWorld (press ''answer:7:0'') (botWith emptyDB))) =
       [CallbackResponse ''callback'', SendMessage 42 CorrectWellDone]"
  by (simp add: scenario_defs handler_defs)


text \<open>
  The claim C8 as stated, for every text and index, fails at the empty text with the
  index -1. That pair is one the bot stores itself: Deepseek answers a submission on
  the unresolved question 5 with an empty content, and the goroutine caches the empty
  text with the index -1. The write of that pair returns no error, and the read after
  it returns what a read of the empty cache returns: no cached response.
\<close>

theorem get_after_put_absent_counterexample:
  "deepseek_cache (db (submission (calmWorld\<lparr>analysis := Content []\<rparr>) (press ''answer:5:1'')
       (botWith emptyDB))) 5 = Some ([], -1)
   \<and> snd (CacheDeepseekResponse Succeeds emptyDB 5 [] (-1)) = None
   \<and> GetCachedDeepseekResponse Succeeds
       (fst (CacheDeepseekResponse Succeeds emptyDB 5 [] (-1))) 5 = ([], -1, None)
   \<and> GetCachedDeepseekResponse Succeeds emptyDB 5 = ([], -1, None)"
  by (simp add: scenario_defs handler_defs)

end
